theory Spec2Isabelle
  imports Complex_Main "HOL-Library.Multiset"
begin

section \<open>Images and the quadrant crop\<close>

text \<open>
  A batch of images is a four-dimensional tensor indexed by (sample, channel, row, column).
  The two spatial extents \<open>shape[2]\<close> and \<open>shape[3]\<close> are carried beside the data, as the
  tensor library carries them, so that they are known for an empty batch as well.
\<close>

record 'a image =
  height :: nat
  width :: nat
  planes :: "'a list list list list"

definition wf_image :: "'a image \<Rightarrow> bool" where
  "wf_image img =
     list_all (list_all (\<lambda>p. length p = height img \<and> list_all (\<lambda>r. length r = width img) p))
       (planes img)"

text \<open>
  The slice \<open>image[:, :, r, c]\<close> on the two spatial axes: a leading part \<open>:k\<close> is
  \<open>take k\<close> and a trailing part \<open>k:\<close> is \<open>drop k\<close>, applied to the rows of every plane
  and to the columns of every row. Slicing never raises; a bound past the end is clipped,
  which is what \<open>take\<close>, \<open>drop\<close>, \<open>min\<close> and the truncating subtraction do.
\<close>

definition slice_lead_lead :: "nat \<Rightarrow> 'a image \<Rightarrow> 'a image" where
  "slice_lead_lead k img =
     \<lparr> height = min k (height img), width = min k (width img),
       planes = map (map (\<lambda>p. map (take k) (take k p))) (planes img) \<rparr>"

definition slice_lead_trail :: "nat \<Rightarrow> 'a image \<Rightarrow> 'a image" where
  "slice_lead_trail k img =
     \<lparr> height = min k (height img), width = width img - k,
       planes = map (map (\<lambda>p. map (drop k) (take k p))) (planes img) \<rparr>"

definition slice_trail_lead :: "nat \<Rightarrow> 'a image \<Rightarrow> 'a image" where
  "slice_trail_lead k img =
     \<lparr> height = height img - k, width = min k (width img),
       planes = map (map (\<lambda>p. map (take k) (drop k p))) (planes img) \<rparr>"

definition slice_trail_trail :: "nat \<Rightarrow> 'a image \<Rightarrow> 'a image" where
  "slice_trail_trail k img =
     \<lparr> height = height img - k, width = width img - k,
       planes = map (map (\<lambda>p. map (drop k) (drop k p))) (planes img) \<rparr>"

text \<open>
  \<open>crop_image_by_part\<close>: the split point is half of \<open>shape[2]\<close> (floor division), used for
  rows and columns alike. The four tests are tried in order; when none holds the function
  falls off its end and returns \<open>None\<close>.
\<close>

definition crop_image_by_part :: "'a image \<Rightarrow> int \<Rightarrow> 'a image option" where
  "crop_image_by_part img part =
     (let hw = height img div 2 in
      if part = 0 then Some (slice_lead_lead hw img)
      else if part = 1 then Some (slice_lead_trail hw img)
      else if part = 2 then Some (slice_trail_lead hw img)
      else if part = 3 then Some (slice_trail_trail hw img)
      else None)"

text \<open>All pixels of an image, in storage order; used to compare crops with their source.\<close>

definition pixels :: "'a image \<Rightarrow> 'a list" where
  "pixels img = concat (concat (concat (planes img)))"

definition plane_mset :: "'a list list \<Rightarrow> 'a multiset" where
  "plane_mset p = (\<Sum>r\<leftarrow>p. mset r)"

definition quadrant_of :: "'a image \<Rightarrow> 'a image \<Rightarrow> bool" where
  "quadrant_of img q \<longleftrightarrow>
     wf_image q \<and> height q = height img div 2 \<and> width q = width img div 2"

section \<open>Tensors of numbers\<close>

text \<open>
  Floating-point numbers are idealised as reals. A tensor of numbers is kept flat: the list
  of its elements, whose length stands for its shape. The mean of an empty tensor, a NaN in
  the source, has no counterpart here; statements about a mean are made for non-empty
  tensors only.
\<close>

type_synonym tensor = "real list"

type_synonym img = "real image"

datatype error = ShapeError | TypeError | ValueError | KeyError string | FileNotFound string
  | LoadError string

definition relu :: "tensor \<Rightarrow> tensor" where
  "relu t = map (\<lambda>x. max 0 x) t"

definition tensor_mean :: "tensor \<Rightarrow> real" where
  "tensor_mean t = sum_list t / real (length t)"

definition tensor_sum :: "tensor \<Rightarrow> real" where
  "tensor_sum t = sum_list t"

text \<open>\<open>t * c\<close> and \<open>t + c\<close> for a number \<open>c\<close>, and \<open>t.mul_(c)\<close>, which has the same value.\<close>

definition scale :: "tensor \<Rightarrow> real \<Rightarrow> tensor" where
  "scale t c = map (\<lambda>x. x * c) t"

definition shift :: "tensor \<Rightarrow> real \<Rightarrow> tensor" where
  "shift t c = map (\<lambda>x. x + c) t"

text \<open>
  Elementwise \<open>a + b\<close> and \<open>a - b\<close> of two tensors. The operands of the hinge terms are
  \<open>pred\<close> and a tensor made by \<open>rand_like(pred)\<close>, of equal shape by construction.
\<close>

definition tensor_add :: "tensor \<Rightarrow> tensor \<Rightarrow> tensor" where
  "tensor_add a b = map2 (+) a b"

definition tensor_sub :: "tensor \<Rightarrow> tensor \<Rightarrow> tensor" where
  "tensor_sub a b = map2 (-) a b"

text \<open>
  The in-place \<open>self.add_(other)\<close>: \<open>other\<close> must have the shape of \<open>self\<close> or broadcast to
  it, which for a flat tensor means a single element; anything else raises.
\<close>

definition add_inplace :: "tensor \<Rightarrow> tensor \<Rightarrow> error + tensor" where
  "add_inplace self other =
     (if length other = length self then Inr (map2 (+) self other)
      else if length other = 1 then Inr (map (\<lambda>x. x + hd other) self)
      else Inl ShapeError)"

section \<open>Random number generators\<close>

text \<open>
  Each generator is an arbitrary infinite supply of draws with a cursor; a call consumes the
  draws under the cursor and advances it. \<open>random.randint(a, b)\<close> returns an integer of the
  closed range and raises on an empty one; how the library turns raw bits into that integer
  is reduced to one draw taken modulo the size of the range.
\<close>

record py_random =
  bits :: "nat \<Rightarrow> nat"
  used :: nat

definition randint :: "int \<Rightarrow> int \<Rightarrow> py_random \<Rightarrow> error + (int \<times> py_random)" where
  "randint a b r =
     (if b < a then Inl ValueError
      else Inr (a + int (bits r (used r) mod nat (b - a + 1)), r\<lparr>used := used r + 1\<rparr>))"

text \<open>
  The tensor library's generator. Position \<open>i\<close> of its supply read as a uniform variate is
  \<open>uniform g i\<close>, documented to lie in \<open>[0, 1)\<close>; read as a standard normal variate it is
  \<open>normal g i\<close>. \<open>rand_like(t)\<close> draws one uniform variate per element of \<open>t\<close>.
\<close>

record torch_generator =
  uniform :: "nat \<Rightarrow> real"
  normal :: "nat \<Rightarrow> real"
  offset :: nat


definition rand_like :: "tensor \<Rightarrow> torch_generator \<Rightarrow> tensor \<times> torch_generator" where
  "rand_like t g =
     (map (uniform g) [offset g ..< offset g + length t], g\<lparr>offset := offset g + length t\<rparr>)"

definition normal_fill :: "nat \<Rightarrow> torch_generator \<Rightarrow> tensor \<times> torch_generator" where
  "normal_fill n g = (map (normal g) [offset g ..< offset g + n], g\<lparr>offset := offset g + n\<rparr>)"

section \<open>Networks, the autograd graph and the collaborators\<close>

text \<open>
  A network is represented by its named parameter tensors in registration order, which is
  what \<open>state_dict()\<close> lists and what \<open>parameters()\<close> enumerates.
\<close>

type_synonym state_dict = "(string \<times> tensor) list"

definition parameters :: "state_dict \<Rightarrow> tensor list" where
  "parameters model = map snd model"

text \<open>
  A value that takes part in differentiation carries, beside its current value, the way it
  is recomputed from the generator's parameters when it is still connected to the
  generator's graph. \<open>detach\<close> cuts that connection and keeps the value.
\<close>

datatype 'a var = Var (val: 'a) (graph: "(tensor list \<Rightarrow> 'a) option")

definition detach :: "'a var \<Rightarrow> 'a var" where
  "detach v = Var (val v) None"

definition replay :: "'a var \<Rightarrow> tensor list \<Rightarrow> 'a" where
  "replay v \<theta> = (case graph v of None \<Rightarrow> val v | Some f \<Rightarrow> f \<theta>)"

definition apply_var :: "('a \<Rightarrow> 'b) \<Rightarrow> 'a var \<Rightarrow> 'b var" where
  "apply_var f v = Var (f (val v)) (map_option (\<lambda>h \<theta>. f (h \<theta>)) (graph v))"

text \<open>
  The discriminator is called with one image tensor or with a list of image scales, and
  answers with a prediction alone or with a prediction and three reconstructions.
\<close>

datatype 'a batch = One 'a | Many "'a list"

datatype d_output = Pred tensor | PredRec tensor img img img

definition pred_of :: "d_output \<Rightarrow> tensor" where
  "pred_of out = (case out of Pred p \<Rightarrow> p | PredRec p _ _ _ \<Rightarrow> p)"

definition gather :: "img var batch \<Rightarrow> img batch var" where
  "gather data =
     (case data of
        One v \<Rightarrow> apply_var One v
      | Many vs \<Rightarrow>
          Var (Many (map val vs))
            (if list_all (\<lambda>v. Option.is_none (graph v)) vs then None
             else Some (\<lambda>\<theta>. Many (map (\<lambda>v. replay v \<theta>) vs))))"

text \<open>
  The collaborators of the training code, taken as parameters: the two networks as functions
  of their parameters and input, the perceptual distance, the resize, the augmentation (which
  draws its random transform from the generator and returns it), differentiation of a scalar
  loss at a point, one optimizer step (from the optimizer's state, the parameters and their
  accumulated gradients to the new state and the new values of the parameters), the
  optimizer's own state loading, and the data source.
\<close>

record ('o, 'l) env =
  generator :: "tensor list \<Rightarrow> tensor \<Rightarrow> img list"
  net :: "tensor list \<Rightarrow> img batch \<Rightarrow> string \<Rightarrow> int option \<Rightarrow> d_output"
  percept :: "img \<Rightarrow> img \<Rightarrow> tensor"
  interpolate :: "img \<Rightarrow> nat \<Rightarrow> img"
  DiffAugment :: "string \<Rightarrow> torch_generator \<Rightarrow> (img \<Rightarrow> img) \<times> torch_generator"
  autograd :: "(tensor list \<Rightarrow> real) \<Rightarrow> tensor list \<Rightarrow> tensor list"
  optimizer_step :: "'o \<Rightarrow> tensor list \<Rightarrow> tensor list option \<Rightarrow> 'o \<times> tensor list"
  optimizer_load_state_dict :: "'o \<Rightarrow> 'o \<Rightarrow> error + 'o"
  next_batch :: "'l \<Rightarrow> img \<times> 'l"

section \<open>Checkpoints and the training state\<close>

datatype 'o ckpt_value = Weights state_dict | Tensors "tensor list" | OptState 'o

type_synonym 'o checkpoint = "(string \<times> 'o ckpt_value) list"

record ('o, 'l) train_state =
  netG :: state_dict
  netD :: state_dict
  gradG :: "tensor list option"
  gradD :: "tensor list option"
  avg_param_G :: "tensor list"
  optimizerG :: 'o
  optimizerD :: 'o
  py_rng :: py_random
  torch_rng :: torch_generator
  dataloader :: 'l
  files :: "string \<rightharpoonup> 'o checkpoint"
  printed :: "(int \<times> real \<times> real) list"

text \<open>
  \<open>zero_grad()\<close> clears a network's gradient accumulators; \<open>backward()\<close> adds to them the
  gradient of the loss. The loss is given as a function of the discriminator's parameters
  and of the input; the discriminator always receives its gradient, the generator only
  through an input that is still connected to its graph.
\<close>

definition accumulate :: "tensor list option \<Rightarrow> tensor list \<Rightarrow> tensor list option" where
  "accumulate acc g = (case acc of None \<Rightarrow> Some g | Some a \<Rightarrow> Some (map2 tensor_add a g))"

definition backward ::
  "('o, 'l) env \<Rightarrow> (tensor list \<Rightarrow> 'x \<Rightarrow> real) \<Rightarrow> 'x var \<Rightarrow>
   ('o, 'l) train_state \<Rightarrow> ('o, 'l) train_state" where
  "backward E loss x st =
     st\<lparr> gradD := accumulate (gradD st)
                     (autograd E (\<lambda>\<theta>. loss \<theta> (val x)) (parameters (netD st))),
         gradG := (case graph x of
                     None \<Rightarrow> gradG st
                   | Some f \<Rightarrow> accumulate (gradG st)
                       (autograd E (\<lambda>\<theta>. loss (parameters (netD st)) (f \<theta>))
                          (parameters (netG st)))) \<rparr>"

section \<open>The discriminator training step\<close>

text \<open>
  The loss of the real path as a function of the discriminator's parameters and of the
  input, for a margin tensor \<open>U\<close> and a quadrant index already drawn. Unpacking the
  network's answer raises when it is not a prediction with three reconstructions; the
  resize of something that is not an image tensor raises, and so does the resize of the
  \<open>None\<close> that \<open>crop_image_by_part\<close> returns for an index outside its four tests.
\<close>

definition real_err ::
  "('o, 'l) env \<Rightarrow> tensor \<Rightarrow> int \<Rightarrow> tensor list \<Rightarrow> img batch \<Rightarrow>
   error + (real \<times> tensor \<times> img \<times> img \<times> img)" where
  "real_err E U part \<theta> data =
     (case net E \<theta> data ''real'' (Some part) of
        Pred _ \<Rightarrow> Inl TypeError
      | PredRec pred rec_all rec_small rec_part \<Rightarrow>
          (case data of
             Many _ \<Rightarrow> Inl TypeError
           | One x \<Rightarrow>
               (case crop_image_by_part x part of
                  None \<Rightarrow> Inl TypeError
                | Some cropped \<Rightarrow>
                    Inr (tensor_mean (relu (tensor_sub (shift (scale U 0.2) 0.8) pred))
                         + tensor_sum (percept E rec_all (interpolate E x (height rec_all)))
                         + tensor_sum (percept E rec_small (interpolate E x (height rec_small)))
                         + tensor_sum (percept E rec_part
                                         (interpolate E cropped (height rec_part))),
                         pred, rec_all, rec_small, rec_part))))"

definition fake_err ::
  "('o, 'l) env \<Rightarrow> tensor \<Rightarrow> string \<Rightarrow> tensor list \<Rightarrow> img batch \<Rightarrow> error + (real \<times> tensor)" where
  "fake_err E U label \<theta> data =
     (case net E \<theta> data label None of
        PredRec _ _ _ _ \<Rightarrow> Inl TypeError
      | Pred pred \<Rightarrow>
          Inr (tensor_mean (relu (tensor_add (shift (scale U 0.2) 0.8) pred)), pred))"

definition loss_value :: "error + (real \<times> 'r) \<Rightarrow> real" where
  "loss_value r = (case r of Inl _ \<Rightarrow> 0 | Inr (err, _) \<Rightarrow> err)"

datatype d_result = RealResult real img img img | FakeResult real

text \<open>
  \<open>train_d\<close>. The shape \<open>rand_like\<close> needs is that of the prediction at the current
  parameters; the margin tensor then is a constant of the loss that is differentiated.
\<close>

definition train_d ::
  "('o, 'l) env \<Rightarrow> ('o, 'l) train_state \<Rightarrow> img var batch \<Rightarrow> string \<Rightarrow>
   error + (d_result \<times> ('o, 'l) train_state)" where
  "train_d E st data label =
     (let x = gather data; \<theta> = parameters (netD st) in
      if label = ''real'' then
        (case randint 0 3 (py_rng st) of
           Inl e \<Rightarrow> Inl e
         | Inr (part, r') \<Rightarrow>
             (case net E \<theta> (val x) label (Some part) of
                Pred _ \<Rightarrow> Inl TypeError
              | PredRec pred0 _ _ _ \<Rightarrow>
                  (let (U, g') = rand_like pred0 (torch_rng st) in
                   case real_err E U part \<theta> (val x) of
                     Inl e \<Rightarrow> Inl e
                   | Inr (err, pred, rec_all, rec_small, rec_part) \<Rightarrow>
                       Inr (RealResult (tensor_mean pred) rec_all rec_small rec_part,
                            backward E (\<lambda>\<theta>' v. loss_value (real_err E U part \<theta>' v)) x
                              (st\<lparr>py_rng := r', torch_rng := g'\<rparr>)))))
      else
        (case net E \<theta> (val x) label None of
           PredRec _ _ _ _ \<Rightarrow> Inl TypeError
         | Pred pred0 \<Rightarrow>
             (let (U, g') = rand_like pred0 (torch_rng st) in
              case fake_err E U label \<theta> (val x) of
                Inl e \<Rightarrow> Inl e
              | Inr (err, pred) \<Rightarrow>
                  Inr (FakeResult (tensor_mean pred),
                       backward E (\<lambda>\<theta>' v. loss_value (fake_err E U label \<theta>' v)) x
                         (st\<lparr>torch_rng := g'\<rparr>)))))"

section \<open>The moving average of the generator's parameters\<close>

text \<open>
  \<open>avg_p.mul_(0.999).add_(0.001 * p.data)\<close> for one pair, and the loop over
  \<open>zip(netG.parameters(), avg_param_G)\<close>, which pairs the two lists position by position and
  stops with the shorter one; the tensors are updated in place, so entries of
  \<open>avg_param_G\<close> past the last pair stay as they are.
\<close>

definition ema_step :: "tensor \<Rightarrow> tensor \<Rightarrow> error + tensor" where
  "ema_step p avg_p = add_inplace (scale avg_p 0.999) (scale p 0.001)"

fun ema_update :: "tensor list \<Rightarrow> tensor list \<Rightarrow> error + tensor list" where
  "ema_update (p # ps) (avg_p # avg) =
     (case ema_step p avg_p of
        Inl e \<Rightarrow> Inl e
      | Inr a \<Rightarrow> (case ema_update ps avg of Inl e \<Rightarrow> Inl e | Inr as \<Rightarrow> Inr (a # as)))"
| "ema_update [] avg = Inr avg"
| "ema_update ps [] = Inr []"


section \<open>Copying parameters out of and into a network\<close>

text \<open>
  Writing a list of tensors over a network's parameters position by position; the names
  stay, and positions the list does not reach keep their tensor.
\<close>

definition set_parameters :: "state_dict \<Rightarrow> tensor list \<Rightarrow> state_dict" where
  "set_parameters model vs = map2 (\<lambda>(k, _) v. (k, v)) model vs @ drop (length vs) model"

text \<open>
  Modelled from the spec: \<open>copy_G_params\<close> of \<open>operation.py\<close> is not among the sources.
  The spec has the shadow initialized as an exact copy of the generator's parameters, one
  tensor per parameter.
\<close>

definition copy_G_params :: "state_dict \<Rightarrow> tensor list" where
  "copy_G_params model = parameters model"

text \<open>
  Modelled from the spec: \<open>load_params\<close> of \<open>operation.py\<close> is not among the sources.
  The spec has the live parameters replaced by the given values, which are one tensor per
  parameter.
\<close>

definition load_params :: "state_dict \<Rightarrow> tensor list \<Rightarrow> state_dict" where
  "load_params model new_param = set_parameters model new_param"

section \<open>The training loop\<close>

record args =
  path :: string
  model_name :: string
  iter :: int
  start_iter :: int
  batch_size :: int
  im_size :: int
  ckpt :: "string option"
  saved_model_folder :: string

text \<open>
  \<open>saved_model_folder\<close> stands for the first component of \<open>get_dir(args)\<close>, a function of
  \<open>operation.py\<close> that is not among the sources.
\<close>

definition checkpoint_path :: "args \<Rightarrow> string" where
  "checkpoint_path a = saved_model_folder a @ ''/'' @ model_name a"

definition forward_G :: "('o, 'l) env \<Rightarrow> tensor list \<Rightarrow> tensor \<Rightarrow> img var list" where
  "forward_G E \<theta> noise =
     map (\<lambda>i. Var (generator E \<theta> noise ! i) (Some (\<lambda>\<theta>'. generator E \<theta>' noise ! i)))
       [0 ..< length (generator E \<theta> noise)]"

definition augment ::
  "('o, 'l) env \<Rightarrow> string \<Rightarrow> img var \<Rightarrow> torch_generator \<Rightarrow> img var \<times> torch_generator" where
  "augment E policy v g = (let (f, g') = DiffAugment E policy g in (apply_var f v, g'))"

fun augment_all ::
  "('o, 'l) env \<Rightarrow> string \<Rightarrow> img var list \<Rightarrow> torch_generator \<Rightarrow>
   img var list \<times> torch_generator" where
  "augment_all E policy [] g = ([], g)"
| "augment_all E policy (v # vs) g =
     (let (v', g1) = augment E policy v g; (vs', g2) = augment_all E policy vs g1
      in (v' # vs', g2))"

text \<open>The dictionary handed to \<open>torch.save\<close>, and the save itself after the two swaps.\<close>

definition checkpoint_record :: "('o, 'l) train_state \<Rightarrow> 'o checkpoint" where
  "checkpoint_record st =
     [(''g'', Weights (netG st)),
      (''d'', Weights (netD st)),
      (''g_ema'', Tensors (avg_param_G st)),
      (''opt_g'', OptState (optimizerG st)),
      (''opt_d'', OptState (optimizerD st))]"

definition save_checkpoint :: "args \<Rightarrow> ('o, 'l) train_state \<Rightarrow> ('o, 'l) train_state" where
  "save_checkpoint a st =
     (let backup_para = copy_G_params (netG st);
          st1 = st\<lparr>netG := load_params (netG st) (avg_param_G st)\<rparr>;
          st2 = st1\<lparr>netG := load_params (netG st1) backup_para\<rparr>
      in st2\<lparr>files := (files st2)(checkpoint_path a \<mapsto> checkpoint_record st2)\<rparr>)"

definition swap_round_trip :: "('o, 'l) train_state \<Rightarrow> ('o, 'l) train_state" where
  "swap_round_trip st =
     (let backup_para = copy_G_params (netG st);
          st1 = st\<lparr>netG := load_params (netG st) (avg_param_G st)\<rparr>
      in st1\<lparr>netG := load_params (netG st1) backup_para\<rparr>)"

definition periodic ::
  "args \<Rightarrow> int \<Rightarrow> real \<Rightarrow> real \<Rightarrow> ('o, 'l) train_state \<Rightarrow> ('o, 'l) train_state" where
  "periodic a iteration err_dr err_g st =
     (let total_iterations = iter a; save_interval = 1000;
          st1 = (if iteration mod save_interval = 0
                 then st\<lparr>printed := printed st @ [(iteration, err_dr, - err_g)]\<rparr> else st);
          st2 = (if iteration mod (save_interval * 10) = 0 then swap_round_trip st1 else st1)
      in if iteration > 0 \<and>
            (iteration mod (save_interval * 50) = 0 \<or> iteration = total_iterations)
         then save_checkpoint a st2 else st2)"

definition bind :: "error + 'a \<Rightarrow> ('a \<Rightarrow> error + 'b) \<Rightarrow> error + 'b" where
  "bind r f = (case r of Inl e \<Rightarrow> Inl e | Inr x \<Rightarrow> f x)"

text \<open>
  The body of the loop, in the order of the source: the batches are drawn and augmented,
  the discriminator is trained, the generator is trained, the shadow is updated, and the
  periodic work is done. A failing step ends the pass with its error, as the exception
  would end the run.
\<close>

definition draw_batches ::
  "('o, 'l) env \<Rightarrow> ('o, 'l) train_state \<Rightarrow> img var \<times> img var list \<times> ('o, 'l) train_state" where
  "draw_batches E st =
     (let nz = 256; policy = ''color,translation'';
          (real_image, l') = next_batch E (dataloader st);
          current_batch_size = length (planes real_image);
          (noise, g1) = normal_fill (current_batch_size * nz) (torch_rng st);
          fake_images = forward_G E (parameters (netG st)) noise;
          (real_image, g2) = augment E policy (Var real_image None) g1;
          (fake_images, g3) = augment_all E policy fake_images g2
      in (real_image, fake_images, st\<lparr>dataloader := l', torch_rng := g3\<rparr>))"

definition train_discriminator ::
  "('o, 'l) env \<Rightarrow> ('o, 'l) train_state \<Rightarrow> img var \<Rightarrow> img var list \<Rightarrow>
   error + (real \<times> ('o, 'l) train_state)" where
  "train_discriminator E st real_image fake_images =
     (case train_d E (st\<lparr>gradD := None\<rparr>) (One real_image) ''real'' of
        Inl e \<Rightarrow> Inl e
      | Inr (FakeResult _, _) \<Rightarrow> Inl TypeError
      | Inr (RealResult err_dr rec_img_all rec_img_small rec_img_part, st1) \<Rightarrow>
          (case train_d E st1 (Many (map detach fake_images)) ''fake'' of
             Inl e \<Rightarrow> Inl e
           | Inr (_, st2) \<Rightarrow>
               (let (oD, wD) = optimizer_step E (optimizerD st2) (parameters (netD st2))
                                 (gradD st2)
                in Inr (err_dr,
                        st2\<lparr>optimizerD := oD, netD := set_parameters (netD st2) wD\<rparr>))))"

definition train_generator ::
  "('o, 'l) env \<Rightarrow> ('o, 'l) train_state \<Rightarrow> img var list \<Rightarrow>
   error + (real \<times> ('o, 'l) train_state)" where
  "train_generator E st fake_images =
     (let st1 = st\<lparr>gradG := None\<rparr>; x = gather (Many fake_images)
      in case net E (parameters (netD st1)) (val x) ''fake'' None of
           PredRec _ _ _ _ \<Rightarrow> Inl TypeError
         | Pred pred_g \<Rightarrow>
             (let err_g = - tensor_mean pred_g;
                  st2 = backward E
                          (\<lambda>\<theta> v. - tensor_mean (pred_of (net E \<theta> v ''fake'' None))) x st1;
                  (oG, wG) = optimizer_step E (optimizerG st2) (parameters (netG st2))
                               (gradG st2)
              in Inr (err_g,
                      st2\<lparr>optimizerG := oG, netG := set_parameters (netG st2) wG\<rparr>)))"

definition update_average :: "('o, 'l) train_state \<Rightarrow> error + ('o, 'l) train_state" where
  "update_average st =
     (case ema_update (parameters (netG st)) (avg_param_G st) of
        Inl e \<Rightarrow> Inl e
      | Inr avg \<Rightarrow> Inr (st\<lparr>avg_param_G := avg\<rparr>))"

definition train_iteration ::
  "('o, 'l) env \<Rightarrow> args \<Rightarrow> int \<Rightarrow> ('o, 'l) train_state \<Rightarrow> error + ('o, 'l) train_state" where
  "train_iteration E a iteration st =
     (let (real_image, fake_images, st1) = draw_batches E st in
      bind (train_discriminator E st1 real_image fake_images) (\<lambda>(err_dr, st2).
      bind (train_generator E st2 fake_images) (\<lambda>(err_g, st3).
      bind (update_average st3) (\<lambda>st4.
        Inr (periodic a iteration err_dr err_g st4)))))"

text \<open>\<open>for iteration in range(current_iteration, total_iterations + 1)\<close>.\<close>

fun train_loop ::
  "('o, 'l) env \<Rightarrow> args \<Rightarrow> int list \<Rightarrow> ('o, 'l) train_state \<Rightarrow> error + ('o, 'l) train_state" where
  "train_loop E a [] st = Inr st"
| "train_loop E a (iteration # rest) st =
     (case train_iteration E a iteration st of
        Inl e \<Rightarrow> Inl e
      | Inr st' \<Rightarrow> train_loop E a rest st')"

section \<open>Loading a checkpoint\<close>

text \<open>
  \<open>str.replace(old, new)\<close>: every non-overlapping occurrence of \<open>old\<close>, found from the left,
  is replaced; an empty \<open>old\<close> matches before every character and at the end.
\<close>

function replace_nonempty :: "string \<Rightarrow> string \<Rightarrow> string \<Rightarrow> string" where
  "replace_nonempty old new s =
     (if old = [] \<or> s = [] then s
      else if take (length old) s = old then new @ replace_nonempty old new (drop (length old) s)
      else hd s # replace_nonempty old new (tl s))"
  by pat_completeness auto
termination
  by (relation "measure (\<lambda>(old, new, s). length s)") (auto simp: neq_Nil_conv)

definition str_replace :: "string \<Rightarrow> string \<Rightarrow> string \<Rightarrow> string" where
  "str_replace s old new =
     (if old = [] then new @ concat (map (\<lambda>c. c # new) s) else replace_nonempty old new s)"

text \<open>
  A dictionary built by a comprehension over \<open>items()\<close>: entries are inserted in order and
  a later entry with the same key replaces the value of the earlier one.
\<close>

fun dict_insert :: "'k \<Rightarrow> 'v \<Rightarrow> ('k \<times> 'v) list \<Rightarrow> ('k \<times> 'v) list" where
  "dict_insert k v [] = [(k, v)]"
| "dict_insert k v ((k', v') # d) = (if k = k' then (k, v) # d else (k', v') # dict_insert k v d)"

definition strip_module :: "state_dict \<Rightarrow> state_dict" where
  "strip_module sd = foldl (\<lambda>d (k, v). dict_insert (str_replace k ''module.'' []) v d) [] sd"

definition dict_get :: "(string \<times> 'v) list \<Rightarrow> string \<Rightarrow> error + 'v" where
  "dict_get d k = (case map_of d k of None \<Rightarrow> Inl (KeyError k) | Some v \<Rightarrow> Inr v)"

text \<open>
  The library's \<open>load_state_dict(d, strict=False)\<close>: a parameter whose name is in \<open>d\<close> takes
  the value stored there, and the call raises when that value has another shape; a parameter
  whose name is missing from \<open>d\<close> keeps its tensor, and names of \<open>d\<close> that the network does
  not have are ignored.
\<close>

fun load_state_dict_lenient :: "state_dict \<Rightarrow> state_dict \<Rightarrow> error + state_dict" where
  "load_state_dict_lenient [] d = Inr []"
| "load_state_dict_lenient ((k, cur) # model) d =
     (case map_of d k of
        None \<Rightarrow> map_sum id (\<lambda>m. (k, cur) # m) (load_state_dict_lenient model d)
      | Some v \<Rightarrow>
          if length v \<noteq> length cur then Inl (LoadError k)
          else map_sum id (\<lambda>m. (k, v) # m) (load_state_dict_lenient model d))"

definition weights_of :: "'o ckpt_value \<Rightarrow> error + state_dict" where
  "weights_of v = (case v of Weights sd \<Rightarrow> Inr sd | _ \<Rightarrow> Inl TypeError)"

definition opt_state_of :: "'o ckpt_value \<Rightarrow> error + 'o" where
  "opt_state_of v = (case v of OptState s \<Rightarrow> Inr s | _ \<Rightarrow> Inl TypeError)"

text \<open>
  The typed state can hold a list of tensors as the shadow and nothing else; a value of
  another kind under \<open>g_ema\<close>, which the source would assign all the same, ends the load here.
\<close>

definition tensors_of :: "'o ckpt_value \<Rightarrow> error + tensor list" where
  "tensors_of v = (case v of Tensors ts \<Rightarrow> Inr ts | _ \<Rightarrow> Inl TypeError)"

definition load_checkpoint ::
  "('o, 'l) env \<Rightarrow> string \<Rightarrow> ('o, 'l) train_state \<Rightarrow> error + ('o, 'l) train_state" where
  "load_checkpoint E checkpoint st =
     (case files st checkpoint of
        None \<Rightarrow> Inl (FileNotFound checkpoint)
      | Some loaded \<Rightarrow>
          bind (dict_get loaded ''g'') (\<lambda>g.
          bind (weights_of g) (\<lambda>g.
          bind (load_state_dict_lenient (netG st) (strip_module g)) (\<lambda>netG'.
          bind (dict_get loaded ''d'') (\<lambda>d.
          bind (weights_of d) (\<lambda>d.
          bind (load_state_dict_lenient (netD st) (strip_module d)) (\<lambda>netD'.
          bind (dict_get loaded ''g_ema'') (\<lambda>g_ema.
          bind (tensors_of g_ema) (\<lambda>g_ema.
          bind (dict_get loaded ''opt_g'') (\<lambda>opt_g.
          bind (opt_state_of opt_g) (\<lambda>opt_g.
          bind (optimizer_load_state_dict E (optimizerG st) opt_g) (\<lambda>optG'.
          bind (dict_get loaded ''opt_d'') (\<lambda>opt_d.
          bind (opt_state_of opt_d) (\<lambda>opt_d.
          bind (optimizer_load_state_dict E (optimizerD st) opt_d) (\<lambda>optD'.
            Inr (st\<lparr>netG := netG', netD := netD', avg_param_G := g_ema,
                     optimizerG := optG', optimizerD := optD'\<rparr>))))))))))))))))"

text \<open>
  \<open>train\<close>, from freshly built networks and optimizers: the shadow starts as a copy of the
  generator's parameters, a configured checkpoint is loaded, and the loop runs.
\<close>

definition train :: "('o, 'l) env \<Rightarrow> args \<Rightarrow> ('o, 'l) train_state \<Rightarrow> error + ('o, 'l) train_state" where
  "train E a fresh =
     (let total_iterations = iter a; current_iteration = start_iter a;
          checkpoint = ckpt a;
          st = fresh\<lparr>avg_param_G := copy_G_params (netG fresh)\<rparr>
      in bind (case checkpoint of None \<Rightarrow> Inr st | Some file \<Rightarrow> load_checkpoint E file st)
           (\<lambda>st'. train_loop E a [current_iteration .. total_iterations] st'))"

section \<open>Auxiliary notions for the statements\<close>

text \<open>
  The shadow tensor after \<open>n\<close> updates against a fixed parameter tensor, in closed form:
  every element has moved towards the parameter by the factor \<open>0.999 ^ n\<close>.
\<close>

definition blend :: "nat \<Rightarrow> tensor \<Rightarrow> tensor \<Rightarrow> tensor" where
  "blend n p a = map2 (\<lambda>x y. y + 0.999 ^ n * (x - y)) a p"

text \<open>Shadow and parameters agree in number and, pair by pair, in shape.\<close>

definition shape_matched :: "tensor list \<Rightarrow> tensor list \<Rightarrow> bool" where
  "shape_matched ps avg = list_all2 (\<lambda>p a. length p = length a) ps avg"



text \<open>The draws of the generator's supply from position \<open>i\<close> up to position \<open>j\<close>.\<close>

definition draws :: "torch_generator \<Rightarrow> nat \<Rightarrow> nat \<Rightarrow> tensor" where
  "draws g i j = map (uniform g) [i ..< j]"





text \<open>What a run leaves at its checkpoint path, and one entry of the file there.\<close>

definition checkpoint_after ::
  "('o, 'l) env \<Rightarrow> args \<Rightarrow> ('o, 'l) train_state \<Rightarrow> error + 'o checkpoint option" where
  "checkpoint_after E a fresh = map_sum id (\<lambda>st. files st (checkpoint_path a)) (train E a fresh)"

definition saved_entry :: "args \<Rightarrow> ('o, 'l) train_state \<Rightarrow> string \<Rightarrow> 'o ckpt_value option" where
  "saved_entry a st k =
     (case files st (checkpoint_path a) of None \<Rightarrow> None | Some c \<Rightarrow> map_of c k)"

section \<open>A small concrete configuration\<close>

text \<open>
  One sample of one channel and two by two pixels, collaborators that answer with constants,
  an optimizer that counts its steps and adds one to every parameter, and a state with one
  generator and one discriminator parameter. The statements below are evaluated on it.
\<close>

definition demo_image :: img where
  "demo_image = \<lparr>height = 2, width = 2, planes = [[[[0, 1], [2, 3]]]]\<rparr>"

definition demo_env :: "(nat, unit) env" where
  "demo_env =
     \<lparr> generator = (\<lambda>\<theta> noise. [demo_image]),
       net = (\<lambda>\<theta> data label part.
                if label = ''real'' then PredRec [1, 3] demo_image demo_image demo_image
                else Pred [0, 1 / 2]),
       percept = (\<lambda>x y. [1]),
       interpolate = (\<lambda>x n. x),
       DiffAugment = (\<lambda>policy g. (id, g)),
       autograd = (\<lambda>f \<theta>. \<theta>),
       optimizer_step = (\<lambda>s \<theta> g. (Suc s, map (map (\<lambda>x. x + 1)) \<theta>)),
       optimizer_load_state_dict = (\<lambda>cur saved. Inr saved),
       next_batch = (\<lambda>l. (demo_image, l)) \<rparr>"

definition demo_state :: "(nat, unit) train_state" where
  "demo_state =
     \<lparr> netG = [(''w'', [1])], netD = [(''v'', [2])], gradG = None, gradD = None,
       avg_param_G = [[5]], optimizerG = 0, optimizerD = 0,
       py_rng = \<lparr>bits = (\<lambda>i. i + 5), used = 0\<rparr>,
       torch_rng = \<lparr>uniform = (\<lambda>i. 1 / 2), normal = (\<lambda>i. 0), offset = 0\<rparr>,
       dataloader = (), files = Map.empty, printed = [] \<rparr>"

definition demo_args :: args where
  "demo_args = \<lparr> path = ''data'', model_name = ''m.pth'', iter = 0, start_iter = 0,
       batch_size = 1, im_size = 2, ckpt = None, saved_model_folder = ''out'' \<rparr>"



section \<open>Properties of the quadrant crop\<close>

lemma sum_list_concat_mset:
  "(\<Sum>x\<leftarrow>concat xss. f x) = (\<Sum>xs\<leftarrow>xss. \<Sum>x\<leftarrow>xs. (f x :: 'b multiset))"
  by (induction xss) simp_all

lemma mset_pixels: "mset (pixels img) = (\<Sum>b\<leftarrow>planes img. \<Sum>p\<leftarrow>b. plane_mset p)"
  by (simp add: pixels_def mset_concat sum_list_concat_mset plane_mset_def)

lemma halves_rows:
  "(\<Sum>r\<leftarrow>q. mset (take k r)) + (\<Sum>r\<leftarrow>q. mset (drop k r)) = plane_mset q"
proof -
  have "(\<lambda>r::'a list. mset (take k r) + mset (drop k r)) = mset"
    by (rule ext) (metis append_take_drop_id mset_append)
  then show ?thesis
    unfolding plane_mset_def by (metis sum_list_addf)
qed

lemma halves_plane: "plane_mset (take k p) + plane_mset (drop k p) = plane_mset p"
  unfolding plane_mset_def by (metis append_take_drop_id map_append sum_list_append)

lemma plane_split:
  "plane_mset (map (take k) (take k p)) + plane_mset (map (drop k) (take k p))
   + plane_mset (map (take k) (drop k p)) + plane_mset (map (drop k) (drop k p)) = plane_mset p"
proof -
  have "plane_mset (map (take k) q) + plane_mset (map (drop k) q) = plane_mset q"
    for q :: "'a list list"
    using halves_rows[of k q] by (simp add: plane_mset_def comp_def)
  from this[of "take k p"] this[of "drop k p"] halves_plane[of k p]
  show ?thesis by (simp add: add.assoc)
qed

lemma batch_split:
  "(\<Sum>b\<leftarrow>bs. \<Sum>p\<leftarrow>b. plane_mset (f0 p)) + (\<Sum>b\<leftarrow>bs. \<Sum>p\<leftarrow>b. plane_mset (f1 p))
   + (\<Sum>b\<leftarrow>bs. \<Sum>p\<leftarrow>b. plane_mset (f2 p)) + (\<Sum>b\<leftarrow>bs. \<Sum>p\<leftarrow>b. plane_mset (f3 p))
   = (\<Sum>b\<leftarrow>bs. \<Sum>p\<leftarrow>b. plane_mset (f0 p) + plane_mset (f1 p) + plane_mset (f2 p)
        + plane_mset (f3 p))"
  by (simp add: sum_list_addf)

lemma crop_mset:
  "mset (pixels (slice_lead_lead k img)) + mset (pixels (slice_lead_trail k img))
   + mset (pixels (slice_trail_lead k img)) + mset (pixels (slice_trail_trail k img))
   = mset (pixels img)"
  by (simp only: mset_pixels slice_lead_lead_def slice_lead_trail_def slice_trail_lead_def
        slice_trail_trail_def image.simps map_map comp_def batch_split plane_split)

lemma wf_slices:
  assumes "wf_image img"
  shows "wf_image (slice_lead_lead k img)" "wf_image (slice_lead_trail k img)"
    "wf_image (slice_trail_lead k img)" "wf_image (slice_trail_trail k img)"
  using assms
  by (auto simp: wf_image_def slice_lead_lead_def slice_lead_trail_def slice_trail_lead_def
      slice_trail_trail_def list_all_iff dest: in_set_takeD in_set_dropD)

text \<open>
  Claim C9. For an image whose height and width are equal and even, the crops for the
  indices 0 to 3 all exist, each is a well-formed image of half the height and half the
  width, and together they hold every pixel of the image exactly once: the multisets of
  their pixels add up to the multiset of the image's pixels, and when the pixels of the
  image are pairwise different (each one labelled by its position, say) no pixel occurs in
  two crops or twice in one.
\<close>

theorem quadrants_partition:
  assumes "wf_image img" and "height img = width img" and "even (height img)"
  shows "\<exists>q0 q1 q2 q3.
           crop_image_by_part img 0 = Some q0 \<and> crop_image_by_part img 1 = Some q1 \<and>
           crop_image_by_part img 2 = Some q2 \<and> crop_image_by_part img 3 = Some q3 \<and>
           quadrant_of img q0 \<and> quadrant_of img q1 \<and> quadrant_of img q2 \<and> quadrant_of img q3 \<and>
           mset (pixels q0) + mset (pixels q1) + mset (pixels q2) + mset (pixels q3)
             = mset (pixels img) \<and>
           (distinct (pixels img) \<longrightarrow>
              distinct (pixels q0 @ pixels q1 @ pixels q2 @ pixels q3))"
proof -
  let ?k = "height img div 2"
  let ?q0 = "slice_lead_lead ?k img" and ?q1 = "slice_lead_trail ?k img"
  let ?q2 = "slice_trail_lead ?k img" and ?q3 = "slice_trail_trail ?k img"
  have crops: "crop_image_by_part img 0 = Some ?q0" "crop_image_by_part img 1 = Some ?q1"
    "crop_image_by_part img 2 = Some ?q2" "crop_image_by_part img 3 = Some ?q3"
    by (simp_all add: crop_image_by_part_def)
  have half: "height img - ?k = ?k" "width img - ?k = ?k" "min ?k (height img) = ?k"
    "min ?k (width img) = ?k" "width img div 2 = ?k"
    using assms(2,3) by auto
  have quads: "quadrant_of img ?q0" "quadrant_of img ?q1" "quadrant_of img ?q2"
    "quadrant_of img ?q3"
    using wf_slices[OF assms(1), of ?k] half
    by (simp_all add: quadrant_of_def slice_lead_lead_def slice_lead_trail_def
        slice_trail_lead_def slice_trail_trail_def)
  have cover: "mset (pixels ?q0) + mset (pixels ?q1) + mset (pixels ?q2) + mset (pixels ?q3)
                 = mset (pixels img)"
    by (rule crop_mset)
  have once: "distinct (pixels ?q0 @ pixels ?q1 @ pixels ?q2 @ pixels ?q3)"
    if "distinct (pixels img)"
  proof -
    have "mset (pixels ?q0 @ pixels ?q1 @ pixels ?q2 @ pixels ?q3) = mset (pixels img)"
      using cover by (simp add: add.assoc)
    then show ?thesis using that by (metis mset_eq_imp_distinct_iff)
  qed
  show ?thesis using crops quads cover once by blast
qed

theorem quadrants_partition_witness:
  "let I = \<lparr>height = 2, width = 2, planes = [[[[(0::nat, 0::nat), (0, 1)], [(1, 0), (1, 1)]]]]\<rparr> in
   wf_image I \<and> height I = width I \<and> even (height I) \<and> distinct (pixels I) \<and>
   (\<exists>q0 q1 q2 q3.
           crop_image_by_part I 0 = Some q0 \<and> crop_image_by_part I 1 = Some q1 \<and>
           crop_image_by_part I 2 = Some q2 \<and> crop_image_by_part I 3 = Some q3 \<and>
           quadrant_of I q0 \<and> quadrant_of I q1 \<and> quadrant_of I q2 \<and> quadrant_of I q3 \<and>
           mset (pixels q0) + mset (pixels q1) + mset (pixels q2) + mset (pixels q3)
             = mset (pixels I) \<and>
           distinct (pixels q0 @ pixels q1 @ pixels q2 @ pixels q3))"
  using quadrants_partition
    [of "\<lparr>height = 2, width = 2, planes = [[[[(0::nat, 0::nat), (0, 1)], [(1, 0), (1, 1)]]]]\<rparr>"]
  by (simp add: wf_image_def pixels_def)

section \<open>Properties of the moving average\<close>

lemma ema_step_blend: "length p = length a \<Longrightarrow> ema_step p a = Inr (blend (Suc 0) p a)"
  unfolding ema_step_def add_inplace_def scale_def blend_def
  by (simp add: zip_map1 zip_map2 map_eq_conv split_def field_simps)

lemma ema_update_blend:
  "shape_matched ps avg \<Longrightarrow> ema_update ps avg = Inr (map2 (blend (Suc 0)) ps avg)"
  unfolding shape_matched_def
  by (induction ps avg rule: list_all2_induct) (simp_all add: ema_step_blend)











section \<open>Properties of the training loop\<close>

lemma backward_frame:
  "netG (backward E L x st) = netG st" "netD (backward E L x st) = netD st"
  "avg_param_G (backward E L x st) = avg_param_G st" "files (backward E L x st) = files st"
  "printed (backward E L x st) = printed st" "optimizerG (backward E L x st) = optimizerG st"
  "optimizerD (backward E L x st) = optimizerD st" "py_rng (backward E L x st) = py_rng st"
  "torch_rng (backward E L x st) = torch_rng st" "dataloader (backward E L x st) = dataloader st"
  by (simp_all add: backward_def)

lemma train_d_frame:
  assumes "train_d E st data label = Inr (r, st')"
  shows "netG st' = netG st \<and> netD st' = netD st \<and> avg_param_G st' = avg_param_G st \<and>
         files st' = files st \<and> printed st' = printed st \<and> optimizerG st' = optimizerG st \<and>
         optimizerD st' = optimizerD st \<and> dataloader st' = dataloader st"
  using assms
  by (auto simp: train_d_def Let_def backward_frame split: if_splits sum.splits d_output.splits prod.splits)

lemma train_discriminator_frame:
  assumes "train_discriminator E st rl fk = Inr (r, st')"
  shows "netG st' = netG st \<and> avg_param_G st' = avg_param_G st \<and>
         files st' = files st \<and> printed st' = printed st \<and> optimizerG st' = optimizerG st"
  using assms
  by (auto simp: train_discriminator_def Let_def split: sum.splits d_result.splits prod.splits
      dest!: train_d_frame)

lemma train_generator_frame:
  assumes "train_generator E st fk = Inr (r, st')"
  shows "netD st' = netD st \<and> avg_param_G st' = avg_param_G st \<and>
         files st' = files st \<and> printed st' = printed st \<and> optimizerD st' = optimizerD st"
  using assms
  by (auto simp: train_generator_def Let_def backward_frame split: d_output.splits prod.splits)

lemma draw_batches_frame:
  assumes "draw_batches E st = (rl, fk, st')"
  shows "netG st' = netG st \<and> netD st' = netD st \<and> avg_param_G st' = avg_param_G st \<and>
         files st' = files st \<and> printed st' = printed st \<and> optimizerG st' = optimizerG st \<and>
         optimizerD st' = optimizerD st"
  using assms
  by (auto simp: draw_batches_def Let_def split: prod.splits)

lemma length_set_parameters: "length (set_parameters m vs) = length m"
  by (simp add: set_parameters_def)

lemma keys_zip:
  "map fst (map2 (\<lambda>(k, _) v. (k, v)) m vs) = map fst (take (length vs) m)"
proof (induction m arbitrary: vs)
  case Nil
  show ?case by simp
next
  case (Cons x m)
  show ?case using Cons.IH[of "tl vs"] by (cases vs; cases x) simp_all
qed

lemma keys_set_parameters: "map fst (set_parameters m vs) = map fst m"
  unfolding set_parameters_def map_append keys_zip by (simp flip: map_append)

lemma set_parameters_restore:
  "map fst m' = map fst m \<Longrightarrow> set_parameters m' (parameters m) = m"
proof (induction m arbitrary: m')
  case Nil
  then show ?case by (simp add: set_parameters_def parameters_def)
next
  case (Cons x m)
  then obtain y ys where m': "m' = y # ys" by (cases m') auto
  with Cons.prems have "fst y = fst x" "map fst ys = map fst m" by simp_all
  with Cons.IH[of ys] m' show ?case
    by (cases x; cases y) (simp add: set_parameters_def parameters_def)
qed

lemma load_round_trip: "load_params (load_params m avg) (copy_G_params m) = m"
  by (simp add: load_params_def copy_G_params_def set_parameters_restore keys_set_parameters)

lemma swap_round_trip_id: "swap_round_trip st = st"
  by (simp add: swap_round_trip_def Let_def load_round_trip)

lemma save_checkpoint_eq:
  "save_checkpoint a st = st\<lparr>files := (files st)(checkpoint_path a \<mapsto> checkpoint_record st)\<rparr>"
  by (simp add: save_checkpoint_def Let_def load_round_trip checkpoint_record_def)


lemma periodic_frame:
  "netG (periodic a i e1 e2 st) = netG st" "netD (periodic a i e1 e2 st) = netD st"
  "avg_param_G (periodic a i e1 e2 st) = avg_param_G st"
  "optimizerG (periodic a i e1 e2 st) = optimizerG st"
  "optimizerD (periodic a i e1 e2 st) = optimizerD st"
  by (simp_all add: periodic_def Let_def swap_round_trip_id save_checkpoint_eq)

lemma periodic_files:
  "files (periodic a i e1 e2 st) =
     (if 0 < i \<and> (i mod 50000 = 0 \<or> i = iter a)
      then (files st)(checkpoint_path a \<mapsto> checkpoint_record st) else files st)"
  by (auto simp: periodic_def Let_def swap_round_trip_id save_checkpoint_eq checkpoint_record_def)

lemma train_iteration_steps:
  assumes "train_iteration E a i st = Inr st'"
  obtains rl fk st1 err_dr st2 err_g st3 st4 where
    "draw_batches E st = (rl, fk, st1)"
    "train_discriminator E st1 rl fk = Inr (err_dr, st2)"
    "train_generator E st2 fk = Inr (err_g, st3)"
    "update_average st3 = Inr st4"
    "st' = periodic a i err_dr err_g st4"
  using assms
  by (auto simp: train_iteration_def bind_def split: prod.splits sum.splits)


lemma demo_iteration_returns:
  "\<exists>st'. train_iteration demo_env a i (demo_state\<lparr>avg_param_G := [[s]]\<rparr>) = Inr st'"
  by (simp add: train_iteration_def draw_batches_def train_discriminator_def train_generator_def
      update_average_def bind_def
      train_d_def demo_env_def demo_state_def randint_def gather_def apply_var_def
      rand_like_def real_err_def fake_err_def crop_image_by_part_def demo_image_def parameters_def
      normal_fill_def forward_G_def augment_def detach_def backward_def set_parameters_def
      ema_step_def add_inplace_def scale_def Let_def)

lemma train_iteration_periodic:
  assumes "train_iteration E a i st = Inr st'"
  obtains err_dr err_g st4 where
    "st' = periodic a i err_dr err_g st4" "files st4 = files st"
proof -
  from assms obtain rl fk st1 err_dr st2 err_g st3 st4 where
    d: "draw_batches E st = (rl, fk, st1)"
    and td: "train_discriminator E st1 rl fk = Inr (err_dr, st2)"
    and tg: "train_generator E st2 fk = Inr (err_g, st3)"
    and ua: "update_average st3 = Inr st4"
    and p: "st' = periodic a i err_dr err_g st4"
    by (rule train_iteration_steps)
  from ua have "files st4 = files st3"
    by (auto simp: update_average_def split: sum.splits)
  with draw_batches_frame[OF d] train_discriminator_frame[OF td] train_generator_frame[OF tg]
  have "files st4 = files st" by simp
  with p show ?thesis by (rule that)
qed

text \<open>
  Claim C7, as amended. A pass of the loop that completes writes the checkpoint file exactly
  when its iteration number is greater than 0 and either a multiple of 50 times the base
  interval of 1000 or equal to the configured total; what it writes is the record of the
  state the pass ends in. In every other pass the files are left as they were.
\<close>

theorem checkpoint_iterations:
  assumes "train_iteration E a i st = Inr st'"
  shows "files st' =
           (if 0 < i \<and> (i mod (1000 * 50) = 0 \<or> i = iter a)
            then (files st)(checkpoint_path a \<mapsto> checkpoint_record st') else files st)"
proof -
  from assms obtain err_dr err_g st4 where
    p: "st' = periodic a i err_dr err_g st4" and f: "files st4 = files st"
    by (rule train_iteration_periodic)
  have same: "checkpoint_record st' = checkpoint_record st4"
    by (simp add: p checkpoint_record_def periodic_frame)
  show ?thesis
  proof (cases "0 < i \<and> (i mod (1000 * 50) = 0 \<or> i = iter a)")
    case True
    then have "files st' = (files st4)(checkpoint_path a \<mapsto> checkpoint_record st4)"
      unfolding p periodic_files by simp
    with True show ?thesis
      by (simp add: same f)
  next
    case False
    then have "files st' = files st4"
      unfolding p periodic_files by auto
    with False show ?thesis
      by (auto simp: f)
  qed
qed

lemma demo_state_shadow: "demo_state\<lparr>avg_param_G := [[5]]\<rparr> = demo_state"
  by (simp add: demo_state_def)

theorem checkpoint_iterations_witness:
  "\<exists>st'. train_iteration demo_env (demo_args\<lparr>iter := 1\<rparr>) 1 demo_state = Inr st' \<and>
     files st' =
       (if 0 < (1::int) \<and> ((1::int) mod (1000 * 50) = 0 \<or> 1 = iter (demo_args\<lparr>iter := 1\<rparr>))
        then (files demo_state)(checkpoint_path (demo_args\<lparr>iter := 1\<rparr>) \<mapsto> checkpoint_record st')
        else files demo_state)"
proof -
  obtain st' where h: "train_iteration demo_env (demo_args\<lparr>iter := 1\<rparr>) 1 demo_state = Inr st'"
    using demo_iteration_returns[of "demo_args\<lparr>iter := 1\<rparr>" 1 5] by (auto simp: demo_state_shadow)
  from checkpoint_iterations[OF h] h show ?thesis by blast
qed

text \<open>
  Claim C7 as stated fails at iteration 0: in the run from 0 to 0 the only pass has an
  iteration number that is a multiple of 50000 and is the final one, and the run ends with no
  file at the checkpoint path.
\<close>

theorem no_checkpoint_at_iteration_zero:
  "[start_iter demo_args .. iter demo_args] = [0] \<and> (0::int) mod (1000 * 50) = 0 \<and>
   iter demo_args = 0 \<and>
   checkpoint_after demo_env demo_args demo_state = Inr None"
proof -
  let ?st0 = "demo_state\<lparr>avg_param_G := [[1]]\<rparr>"
  obtain st' where h: "train_iteration demo_env demo_args 0 ?st0 = Inr st'"
    using demo_iteration_returns[of demo_args 0 1] by blast
  from h obtain err_dr err_g st4 where
    p: "st' = periodic demo_args 0 err_dr err_g st4" and f4: "files st4 = files ?st0"
    by (rule train_iteration_periodic)
  have "files st' = files ?st0"
    unfolding p periodic_files f4 by simp
  then have f: "files st' (checkpoint_path demo_args) = None"
    by (simp add: demo_state_def)
  have s0: "demo_state\<lparr>avg_param_G := copy_G_params (netG demo_state)\<rparr> = ?st0"
    by (simp add: demo_state_def copy_G_params_def parameters_def)
  have r: "[start_iter demo_args .. iter demo_args] = [0]"
    by (simp add: demo_args_def)
  have "train demo_env demo_args demo_state = Inr st'"
    unfolding train_def Let_def s0 r
    by (simp add: demo_args_def bind_def) (simp add: h flip: demo_args_def)
  then show ?thesis
    using f r by (simp add: checkpoint_after_def) (simp add: demo_args_def)
qed

text \<open>
  Claim C6. A save puts at the one path derived from the output folder and the model name,
  replacing whatever was there and touching no other path, a dictionary with exactly the
  keys \<open>g\<close>, \<open>d\<close>, \<open>g_ema\<close>, \<open>opt_g\<close> and \<open>opt_d\<close>, holding the live generator weights,
  the discriminator weights, the shadow and the state of the two optimizers.
\<close>

theorem checkpoint_contents:
  "files (save_checkpoint a st) =
     (files st)(checkpoint_path a \<mapsto>
        [(''g'', Weights (netG st)),
         (''d'', Weights (netD st)),
         (''g_ema'', Tensors (avg_param_G st)),
         (''opt_g'', OptState (optimizerG st)),
         (''opt_d'', OptState (optimizerD st))]) \<and>
   map fst (checkpoint_record st) = [''g'', ''d'', ''g_ema'', ''opt_g'', ''opt_d''] \<and>
   checkpoint_path a = saved_model_folder a @ ''/'' @ model_name a"
proof -
  let ?swapped = "st\<lparr>netG := load_params (netG st) (avg_param_G st)\<rparr>"
  let ?restored = "?swapped\<lparr>netG := load_params (netG ?swapped) (copy_G_params (netG st))\<rparr>"
  have undone: "netG ?restored = netG st"
    by (simp add: load_round_trip)
  have written: "files (save_checkpoint a st)
                   = (files st)(checkpoint_path a \<mapsto> checkpoint_record ?restored)"
    by (simp add: save_checkpoint_def Let_def)
  have entries: "checkpoint_record ?restored =
        [(''g'', Weights (netG st)),
         (''d'', Weights (netD st)),
         (''g_ema'', Tensors (avg_param_G st)),
         (''opt_g'', OptState (optimizerG st)),
         (''opt_d'', OptState (optimizerD st))]"
    unfolding checkpoint_record_def undone by simp
  have keys: "map fst (checkpoint_record st) = [''g'', ''d'', ''g_ema'', ''opt_g'', ''opt_d'']"
    by (simp add: checkpoint_record_def)
  have place: "checkpoint_path a = saved_model_folder a @ ''/'' @ model_name a"
    by (simp add: checkpoint_path_def)
  show ?thesis
    using written entries keys place by simp
qed

lemma parameters_load_params:
  "length new = length m \<Longrightarrow> parameters (load_params m new) = new"
proof (induction m arbitrary: new)
  case Nil
  then show ?case by (simp add: load_params_def set_parameters_def parameters_def)
next
  case (Cons x m)
  then obtain v vs where n: "new = v # vs" by (cases new) auto
  with Cons.prems have "length vs = length m" by simp
  from Cons.IH[OF this] n show ?case
    by (cases x) (simp add: load_params_def set_parameters_def parameters_def)
qed

text \<open>
  Claim C3, as amended. During a save the shadow values are written over the generator's
  parameters and the parameters copied before are written back, before the file is written:
  the generator after the save is the generator before it, the entry \<open>g\<close> of the file holds
  these live weights, and the shadow is in the entry \<open>g_ema\<close>. In between, the parameters
  are the shadow values when there is one shadow tensor per parameter.
\<close>

theorem swap_restores_before_save:
  "netG (save_checkpoint a st) = netG st \<and>
   saved_entry a (save_checkpoint a st) ''g'' = Some (Weights (netG st)) \<and>
   saved_entry a (save_checkpoint a st) ''g_ema'' = Some (Tensors (avg_param_G st)) \<and>
   load_params (load_params (netG st) (avg_param_G st)) (copy_G_params (netG st)) = netG st \<and>
   (length (avg_param_G st) = length (netG st) \<longrightarrow>
      parameters (load_params (netG st) (avg_param_G st)) = avg_param_G st)"
proof -
  have restored: "load_params (load_params (netG st) (avg_param_G st)) (copy_G_params (netG st))
                    = netG st"
    by (rule load_round_trip)
  have live: "netG (save_checkpoint a st) = netG st"
    by (simp add: save_checkpoint_def Let_def restored)
  have stored: "files (save_checkpoint a st) (checkpoint_path a) = Some (checkpoint_record st)"
    by (simp add: save_checkpoint_eq)
  have g: "saved_entry a (save_checkpoint a st) ''g'' = Some (Weights (netG st))"
    and e: "saved_entry a (save_checkpoint a st) ''g_ema'' = Some (Tensors (avg_param_G st))"
    by (simp_all add: saved_entry_def stored checkpoint_record_def)
  have swapped: "parameters (load_params (netG st) (avg_param_G st)) = avg_param_G st"
    if "length (avg_param_G st) = length (netG st)"
    using that by (rule parameters_load_params)
  show ?thesis
    using live g e restored swapped by blast
qed

theorem swap_restores_before_save_witness:
  "length (avg_param_G demo_state) = length (netG demo_state) \<and>
   netG (save_checkpoint demo_args demo_state) = netG demo_state \<and>
   saved_entry demo_args (save_checkpoint demo_args demo_state) ''g''
     = Some (Weights (netG demo_state)) \<and>
   parameters (load_params (netG demo_state) (avg_param_G demo_state)) = avg_param_G demo_state"
  using swap_restores_before_save [of demo_args demo_state]
  by (simp add: demo_state_def)

text \<open>
  Claim C3 as stated fails: with the live parameter 1 and the shadow value 5, the entry \<open>g\<close>
  of the saved file holds 1, not the swapped-in 5.
\<close>

theorem saved_generator_is_not_the_shadow:
  "parameters (load_params (netG demo_state) (avg_param_G demo_state)) = [[5]] \<and>
   saved_entry demo_args (save_checkpoint demo_args demo_state) ''g''
     = Some (Weights [(''w'', [1])]) \<and>
   saved_entry demo_args (save_checkpoint demo_args demo_state) ''g''
     \<noteq> Some (Weights (load_params (netG demo_state) (avg_param_G demo_state)))"
  by (simp add: save_checkpoint_eq saved_entry_def checkpoint_record_def demo_state_def
      load_params_def set_parameters_def parameters_def)

lemma ema_update_formula:
  "shape_matched ps avg \<Longrightarrow>
   ema_update ps avg = Inr (map2 (map2 (\<lambda>p s. s * 0.999 + 0.001 * p)) ps avg)"
proof -
  have "blend (Suc 0) p s = map2 (\<lambda>p s. s * 0.999 + 0.001 * p) p s" for p s
    by (simp add: blend_def zip_commute[of s p] split_def field_simps)
  then have "blend (Suc 0) = map2 (\<lambda>p s. s * 0.999 + 0.001 * p)"
    by (intro ext)
  then show "shape_matched ps avg \<Longrightarrow> ?thesis"
    by (simp add: ema_update_blend)
qed

text \<open>
  Claim C2. A pass of the loop that completes consists of the drawing of the batches, the
  discriminator's training and the generator's training, which ends with the generator's
  optimizer step; the shadow it ends with is the result of one update of the shadow it
  started with against the parameters that step has written, which are the parameters the
  next pass starts from. For a shadow that matches the parameters in shape the update is
  \<open>shadow * 0.999 + 0.001 * param\<close>, element by element.
\<close>

theorem ema_once_after_generator_step:
  assumes "train_iteration E a i st = Inr st'"
  shows "\<exists>rl fk st1 err_dr st2 err_g st3.
           draw_batches E st = (rl, fk, st1) \<and>
           train_discriminator E st1 rl fk = Inr (err_dr, st2) \<and>
           train_generator E st2 fk = Inr (err_g, st3) \<and>
           netG st' = netG st3 \<and> avg_param_G st3 = avg_param_G st \<and>
           ema_update (parameters (netG st')) (avg_param_G st) = Inr (avg_param_G st') \<and>
           (shape_matched (parameters (netG st')) (avg_param_G st) \<longrightarrow>
              avg_param_G st' =
                map2 (map2 (\<lambda>p s. s * 0.999 + 0.001 * p)) (parameters (netG st'))
                  (avg_param_G st))"
proof -
  from assms obtain rl fk st1 err_dr st2 err_g st3 st4 where
    d: "draw_batches E st = (rl, fk, st1)"
    and td: "train_discriminator E st1 rl fk = Inr (err_dr, st2)"
    and tg: "train_generator E st2 fk = Inr (err_g, st3)"
    and ua: "update_average st3 = Inr st4"
    and p: "st' = periodic a i err_dr err_g st4"
    by (rule train_iteration_steps)
  from ua have u: "ema_update (parameters (netG st3)) (avg_param_G st3) = Inr (avg_param_G st4)"
    and g4: "netG st4 = netG st3"
    by (auto simp: update_average_def split: sum.splits)
  have avg3: "avg_param_G st3 = avg_param_G st"
    using draw_batches_frame[OF d] train_discriminator_frame[OF td] train_generator_frame[OF tg]
    by simp
  have g': "netG st' = netG st3" and a': "avg_param_G st' = avg_param_G st4"
    by (simp_all add: p periodic_frame g4)
  have e: "ema_update (parameters (netG st')) (avg_param_G st) = Inr (avg_param_G st')"
    using u by (simp add: g' a' avg3)
  have "avg_param_G st' =
          map2 (map2 (\<lambda>p s. s * 0.999 + 0.001 * p)) (parameters (netG st')) (avg_param_G st)"
    if "shape_matched (parameters (netG st')) (avg_param_G st)"
    using ema_update_formula[OF that] e by simp
  with d td tg g' avg3 e show ?thesis by blast
qed

theorem ema_once_after_generator_step_witness:
  "\<exists>st'. train_iteration demo_env demo_args 0 demo_state = Inr st' \<and>
     netG st' = [(''w'', [2])] \<and>
     shape_matched (parameters (netG st')) (avg_param_G demo_state) \<and>
     avg_param_G st' = [[5 * 0.999 + 0.001 * 2]]"
proof -
  obtain st' where h: "train_iteration demo_env demo_args 0 demo_state = Inr st'"
    using demo_iteration_returns[of demo_args 0 5] by (auto simp: demo_state_shadow)
  from ema_once_after_generator_step[OF h]
  obtain rl fk st1 err_dr st2 err_g st3 where
    d: "draw_batches demo_env demo_state = (rl, fk, st1)"
    and td: "train_discriminator demo_env st1 rl fk = Inr (err_dr, st2)"
    and tg: "train_generator demo_env st2 fk = Inr (err_g, st3)"
    and g: "netG st' = netG st3"
    and f: "shape_matched (parameters (netG st')) (avg_param_G demo_state) \<longrightarrow>
              avg_param_G st' =
                map2 (map2 (\<lambda>p s. s * 0.999 + 0.001 * p)) (parameters (netG st'))
                  (avg_param_G demo_state)"
    by blast
  have g2: "netG st2 = netG demo_state"
    using draw_batches_frame[OF d] train_discriminator_frame[OF td] by simp
  have g3: "netG st3 = [(''w'', [2])]"
    using tg g2
    by (auto simp: train_generator_def Let_def backward_frame demo_env_def demo_state_def
        set_parameters_def parameters_def split: d_output.splits if_splits)
  have sm: "shape_matched (parameters (netG st')) (avg_param_G demo_state)"
    by (simp add: g g3 shape_matched_def parameters_def demo_state_def)
  from f sm have "avg_param_G st' = [[5 * 0.999 + 0.001 * 2]]"
    by (simp add: g g3 parameters_def demo_state_def)
  with h g g3 sm show ?thesis by (intro exI[of _ st']) simp
qed

section \<open>Properties of the discriminator training step\<close>




lemma randint_0_3:
  "\<exists>part. randint 0 3 r = Inr (part, r\<lparr>used := used r + 1\<rparr>) \<and> part \<in> {0, 1, 2, 3}"
proof -
  have "int (k mod 4) \<in> {0, 1, 2, 3}" for k :: nat
  proof -
    have "k mod 4 < 4" by simp
    then have "k mod 4 = 0 \<or> k mod 4 = 1 \<or> k mod 4 = 2 \<or> k mod 4 = 3" by linarith
    then show ?thesis by auto
  qed
  then show ?thesis by (simp add: randint_def)
qed

lemma rand_like_draws:
  "rand_like t g = (draws g (offset g) (offset g + length t), g\<lparr>offset := offset g + length t\<rparr>)"
  by (simp add: rand_like_def draws_def)



lemma val_gather_One: "val (gather (One x)) = One (val x)"
  by (simp add: gather_def apply_var_def)





lemma train_d_real_returns:
  assumes "\<And>p. \<exists>pred ra rs rp.
             net E (parameters (netD st)) (One (val x)) ''real'' (Some p) = PredRec pred ra rs rp"
  shows "\<exists>res st'. train_d E st (One x) ''real'' = Inr (res, st')"
proof -
  obtain part where r: "randint 0 3 (py_rng st) = Inr (part, (py_rng st)\<lparr>used := used (py_rng st) + 1\<rparr>)"
    and pr: "part \<in> {0, 1, 2, 3}"
    using randint_0_3 by blast
  from assms obtain pred ra rs rp where
    n: "net E (parameters (netD st)) (One (val x)) ''real'' (Some part) = PredRec pred ra rs rp"
    by blast
  from pr obtain cropped where c: "crop_image_by_part (val x) part = Some cropped"
    by (auto simp: crop_image_by_part_def)
  show ?thesis
    by (simp add: train_d_def Let_def r n c val_gather_One rand_like_draws real_err_def)
qed

text \<open>
  Claim C10. \<open>crop_image_by_part\<close> returns an image exactly for the indices 0, 1, 2 and 3
  and \<open>None\<close> for every other integer. \<open>random.randint(0, 3)\<close> never raises and draws one
  of these four, so the real path of \<open>train_d\<close>, the only caller, returns normally whenever
  the discriminator answers with a prediction and three reconstructions: the resize of a
  \<open>None\<close> is never reached.
\<close>

theorem crop_index_always_in_range:
  "((\<exists>q. crop_image_by_part img part = Some q) \<longleftrightarrow> part \<in> {0, 1, 2, 3}) \<and>
   (part \<notin> {0, 1, 2, 3} \<longleftrightarrow> crop_image_by_part img part = None) \<and>
   (\<exists>drawn r'. randint 0 3 r = Inr (drawn, r') \<and> drawn \<in> {0, 1, 2, 3}) \<and>
   ((\<forall>p. \<exists>pred ra rs rp.
        net E (parameters (netD st)) (One (val x)) ''real'' (Some p) = PredRec pred ra rs rp) \<longrightarrow>
    (\<exists>res st'. train_d E st (One x) ''real'' = Inr (res, st')))"
proof -
  have a: "(\<exists>q. crop_image_by_part img part = Some q) \<longleftrightarrow> part \<in> {0, 1, 2, 3}"
    by (auto simp: crop_image_by_part_def Let_def)
  then have b: "part \<notin> {0, 1, 2, 3} \<longleftrightarrow> crop_image_by_part img part = None"
    by (metis not_Some_eq)
  have c: "\<exists>drawn r'. randint 0 3 r = Inr (drawn, r') \<and> drawn \<in> {0, 1, 2, 3}"
    using randint_0_3[of r] by blast
  show ?thesis
    using a b c train_d_real_returns[of E st x] by blast
qed

theorem crop_index_always_in_range_witness:
  "(\<forall>p. \<exists>pred ra rs rp.
      net demo_env (parameters (netD demo_state)) (One (val (Var demo_image None))) ''real'' (Some p)
        = PredRec pred ra rs rp) \<and>
   (\<exists>res st'. train_d demo_env demo_state (One (Var demo_image None)) ''real'' = Inr (res, st')) \<and>
   crop_image_by_part demo_image 4 = None \<and>
   (\<exists>q. crop_image_by_part demo_image 2 = Some q)"
proof -
  have h: "\<forall>p. \<exists>pred ra rs rp.
      net demo_env (parameters (netD demo_state)) (One (val (Var demo_image None))) ''real'' (Some p)
        = PredRec pred ra rs rp"
    by (simp add: demo_env_def)
  from crop_index_always_in_range[of demo_image 4 "py_rng demo_state" demo_env demo_state "Var demo_image None"]
    crop_index_always_in_range[of demo_image 2 "py_rng demo_state" demo_env demo_state "Var demo_image None"]
    h
  show ?thesis by simp
qed











section \<open>Properties of the checkpoint load\<close>










end
